theory Spec2Isabelle
  imports Main "HOL-Library.Word"
begin

section \<open>JavaScript values\<close>

text \<open>
  A JavaScript string is a sequence of UTF-16 code units.  \<open>js\<close> embeds an ASCII
  literal of the source.
\<close>

type_synonym jsstring = "16 word list"

definition js :: "string \<Rightarrow> jsstring" where
  "js cs = map of_char cs"

text \<open>
  \<open>String.prototype.trim\<close> removes the code units of WhiteSpace and LineTerminator
  from both ends: TAB, LF, VT, FF, CR, SP, NBSP, U+1680, U+2000 to U+200A, LS, PS,
  U+202F, U+205F, U+3000 and U+FEFF.
\<close>

definition js_whitespace :: "16 word \<Rightarrow> bool" where
  "js_whitespace c =
     (c = 0x9 \<or> c = 0xA \<or> c = 0xB \<or> c = 0xC \<or> c = 0xD \<or> c = 0x20 \<or> c = 0xA0 \<or>
      c = 0x1680 \<or> (0x2000 \<le> c \<and> c \<le> 0x200A) \<or> c = 0x2028 \<or> c = 0x2029 \<or>
      c = 0x202F \<or> c = 0x205F \<or> c = 0x3000 \<or> c = 0xFEFF)"

definition js_trim :: "jsstring \<Rightarrow> jsstring" where
  "js_trim s = rev (dropWhile js_whitespace (rev (dropWhile js_whitespace s)))"

text \<open>
  The values that \<open>res.json()\<close> can produce, and \<open>undefined\<close>.  A number is the 64 bits
  of its IEEE double; an object is the list of its members in the order of the text.
\<close>

datatype jsval =
    JUndefined
  | JNull
  | JBool bool
  | JNum "64 word"
  | JStr jsstring
  | JArr "jsval list"
  | JObj "(jsstring \<times> jsval) list"

datatype exn = FetchRejected | Error string | JsonRejected | TypeError

text \<open>
  \<open>data.response\<close>: reading a property of \<open>null\<close> or \<open>undefined\<close> throws a
  TypeError; an object gives its member of that name (the last one, when the text
  repeated the name) or \<open>undefined\<close>; any other value has no such property.
\<close>

fun get_property :: "jsval \<Rightarrow> jsstring \<Rightarrow> exn + jsval" where
  "get_property JUndefined k = Inl TypeError"
| "get_property JNull k = Inl TypeError"
| "get_property (JObj kvs) k =
     (case map_of (rev kvs) k of None \<Rightarrow> Inr JUndefined | Some v \<Rightarrow> Inr v)"
| "get_property v k = Inr JUndefined"

text \<open>
  The conversion of a value to a string, as a template literal does it, for what the
  component needs of it: whether it throws.  A primitive converts.  An object whose text
  had a member \<open>toString\<close> has no callable \<open>toString\<close> and the inherited \<open>valueOf\<close> returns
  the object itself, so the conversion throws a TypeError; any other object converts with
  the inherited \<open>toString\<close>.  An array joins the conversions of its elements, \<open>null\<close>
  among them as the empty string.
\<close>

fun to_string_throws :: "jsval \<Rightarrow> bool"
  and to_string_throws_any :: "jsval list \<Rightarrow> bool" where
  "to_string_throws (JObj kvs) = (js ''toString'' \<in> set (map fst kvs))"
| "to_string_throws (JArr vs) = to_string_throws_any vs"
| "to_string_throws JUndefined = False"
| "to_string_throws JNull = False"
| "to_string_throws (JBool b) = False"
| "to_string_throws (JNum n) = False"
| "to_string_throws (JStr t) = False"
| "to_string_throws_any [] = False"
| "to_string_throws_any (v # vs) = (to_string_throws v \<or> to_string_throws_any vs)"

section \<open>The platform\<close>

datatype voice = Voice (voice_name: jsstring) (voice_lang: jsstring)

text \<open>
  What \<open>fetch\<close> and \<open>res.json()\<close> settle with: the request is rejected, or a response
  with a status arrives whose body parses as JSON or does not.
\<close>

datatype body = NotJson | JsonBody jsval

datatype fetch_result = NetworkFailure | Responded nat body

definition res_ok :: "nat \<Rightarrow> bool" where
  "res_ok status = (200 \<le> status \<and> status \<le> 299)"

text \<open>
  The calls the component makes on the platform, in the order it makes them.  The body of
  a request is the value handed to \<open>JSON.stringify\<close>; \<open>SynthSpeak\<close> is the utterance
  built from a text, with the voice assigned to it, handed to \<open>synth.speak\<close>.  These
  calls belong to the platform: they are recorded with the values they are given, and
  return.  Console output is not recorded.
\<close>

datatype effect =
    Alert string
  | RecognitionNew nat
  | RecognitionStart nat
  | Fetch string string "(string \<times> string) list" jsval
  | SynthCancel
  | SynthSpeak jsval "voice option"

fun is_Fetch :: "effect \<Rightarrow> bool" where
  "is_Fetch (Fetch url m hs b) = True"
| "is_Fetch e = False"

fun is_RecognitionStart :: "effect \<Rightarrow> bool" where
  "is_RecognitionStart (RecognitionStart i) = True"
| "is_RecognitionStart e = False"

fun is_RecognitionNew :: "effect \<Rightarrow> bool" where
  "is_RecognitionNew (RecognitionNew i) = True"
| "is_RecognitionNew e = False"

fun is_SynthSpeak :: "effect \<Rightarrow> bool" where
  "is_SynthSpeak (SynthSpeak t v) = True"
| "is_SynthSpeak e = False"

section \<open>The component state\<close>

text \<open>The \<open>useState\<close> cells of \<open>App\<close>, with their initial values.\<close>

record session =
  isLoading :: bool
  response :: jsval
  error :: string
  userInput :: jsstring
  selectedVoice :: nat
  isRecording :: bool
  voices :: "voice list"
  showVoices :: bool
  isModalOpen :: bool

definition initial :: session where
  "initial = \<lparr> isLoading = False, response = JStr [], error = [], userInput = [],
     selectedVoice = 0, isRecording = False, voices = [], showVoices = False,
     isModalOpen = False \<rparr>"

text \<open>\<open>voices[selectedVoice]\<close>: an index outside the array reads \<open>undefined\<close>.\<close>

definition voice_at :: "voice list \<Rightarrow> nat \<Rightarrow> voice option" where
  "voice_at vs i = (if i < length vs then Some (vs ! i) else None)"

section \<open>Handlers\<close>

text \<open>
  A handler is a closure of one render: it reads the state cells as that render saw them
  (the argument \<open>rnd\<close>) and writes through the setters into the live state.  A handler
  called from the page is the one of the latest render, so there \<open>rnd\<close> is the live
  state.
\<close>

text \<open>
  \<open>animateMessageSent\<close> builds its message with a template literal over the text, which
  throws when the text does not convert to a string.
\<close>

definition animateMessageSent :: "jsval \<Rightarrow> exn option" where
  "animateMessageSent text = (if to_string_throws text then Some TypeError else None)"

text \<open>
  \<open>speakResponse\<close>: the calls on the platform, then \<open>animateMessageSent\<close>; the exception it
  ends with, if any, and the calls made.
\<close>

definition speakResponse :: "session \<Rightarrow> jsval \<Rightarrow> exn option \<times> effect list" where
  "speakResponse rnd text =
     (animateMessageSent text,
      [SynthCancel, SynthSpeak text (voice_at (voices rnd) (selectedVoice rnd))])"

definition request :: "jsstring \<Rightarrow> effect" where
  "request input =
     Fetch ''http://127.0.0.1:5000'' ''POST'' [(''Content-Type'', ''application/json'')]
       (JObj [(js ''text'', JStr input)])"

text \<open>
  The \<open>try\<close> block after \<open>fetch\<close> has settled: the exception thrown, if any, and the
  state and calls made up to there.
\<close>

definition try_block ::
  "session \<Rightarrow> fetch_result \<Rightarrow> session \<Rightarrow> exn option \<times> session \<times> effect list" where
  "try_block rnd fr s =
     (case fr of
        NetworkFailure \<Rightarrow> (Some FetchRejected, s, [])
      | Responded status b \<Rightarrow>
          if \<not> res_ok status then (Some (Error ''Failed to get chatbot response''), s, [])
          else (case b of
                  NotJson \<Rightarrow> (Some JsonRejected, s, [])
                | JsonBody data \<Rightarrow>
                    (case get_property data (js ''response'') of
                       Inl e \<Rightarrow> (Some e, s, [])
                     | Inr r \<Rightarrow>
                         (case speakResponse rnd r of
                            (ex, fx) \<Rightarrow> (ex, s\<lparr>response := r\<rparr>, fx)))))"

text \<open>
  \<open>handleUserInput\<close> up to the \<open>await\<close> of \<open>fetch\<close>, or to its \<open>return\<close> on a blank
  input.
\<close>

definition handleUserInput_begin :: "jsstring \<Rightarrow> session \<Rightarrow> session \<times> effect list" where
  "handleUserInput_begin input s =
     (if js_trim input = [] then (s\<lparr>error := ''Please speak a valid input.''\<rparr>, [])
      else (s\<lparr>isLoading := True, error := []\<rparr>, [request input]))"

text \<open>The rest of \<open>handleUserInput\<close>, run when the request has settled with \<open>fr\<close>.\<close>

definition handleUserInput_resume ::
  "session \<Rightarrow> fetch_result \<Rightarrow> session \<Rightarrow> session \<times> effect list" where
  "handleUserInput_resume rnd fr s =
     (case try_block rnd fr s of
        (None, s', fx) \<Rightarrow> (s'\<lparr>isLoading := False\<rparr>, fx)
      | (Some e, s', fx) \<Rightarrow>
          (s'\<lparr>error := ''Sorry, there was an issue processing the request.'',
              isLoading := False\<rparr>, fx))"

text \<open>A whole call of \<open>handleUserInput\<close>, nothing else running in between.\<close>

definition handleUserInput ::
  "session \<Rightarrow> fetch_result \<Rightarrow> jsstring \<Rightarrow> session \<Rightarrow> session \<times> effect list" where
  "handleUserInput rnd fr input s =
     (if js_trim input = [] then handleUserInput_begin input s
      else (case handleUserInput_begin input s of
              (s1, fx1) \<Rightarrow> (case handleUserInput_resume rnd fr s1 of
                              (s2, fx2) \<Rightarrow> (s2, fx1 @ fx2))))"

text \<open>The handlers that a recognition instance gets, and \<open>resetRecording\<close>.\<close>

definition resetRecording :: "session \<Rightarrow> session" where
  "resetRecording s = s\<lparr>isLoading := False, isRecording := False, isModalOpen := False\<rparr>"

definition recognition_onstart :: "session \<Rightarrow> session" where
  "recognition_onstart s = s\<lparr>isLoading := True, isRecording := True, isModalOpen := True\<rparr>"

definition recognition_onresult ::
  "session \<Rightarrow> jsstring \<Rightarrow> fetch_result \<Rightarrow> session \<Rightarrow> session \<times> effect list" where
  "recognition_onresult rnd recognizedInput fr s =
     (case handleUserInput rnd fr recognizedInput (s\<lparr>userInput := recognizedInput\<rparr>) of
        (s', fx) \<Rightarrow> (s'\<lparr>isModalOpen := False\<rparr>, fx))"

definition recognition_onerror :: "session \<Rightarrow> session" where
  "recognition_onerror s =
     resetRecording (s\<lparr>error := ''Sorry, there was an error with speech recognition.''\<rparr>)"

text \<open>
  The handlers of the page: the modal's Cancel, a voice item, the text box, the send
  button; and \<open>fetchVoices\<close>, run at mounting and when the platform's catalog changes.
\<close>

definition modal_onClose :: "session \<Rightarrow> session" where
  "modal_onClose s = s\<lparr>isModalOpen := False\<rparr>"




definition send_onClick :: "fetch_result \<Rightarrow> session \<Rightarrow> session \<times> effect list" where
  "send_onClick fr s = handleUserInput s fr (userInput s) s"

section \<open>Recognition instances\<close>

text \<open>
  The page as a whole: whether the browser has \<open>SpeechRecognition\<close> (or the webkit
  one), the state cells, the recognition objects constructed so far, each with the
  properties set on it and the render its handlers are closures of, and the calls made on
  the platform so far.
\<close>

record recognition =
  lang :: string
  interimResults :: bool
  maxAlternatives :: nat
  handlers :: session

record world =
  supported :: bool
  sess :: session
  recognitions :: "recognition list"
  trace :: "effect list"

definition startSpeechRecognition :: "world \<Rightarrow> world" where
  "startSpeechRecognition w =
     (if \<not> supported w
      then w\<lparr>trace := trace w @ [Alert ''Speech Recognition is not supported in this browser.'']\<rparr>
      else w\<lparr>recognitions := recognitions w @
                 [\<lparr>lang = ''en-US'', interimResults = False, maxAlternatives = 1,
                   handlers = sess w\<rparr>],
              trace := trace w @
                 [RecognitionNew (length (recognitions w)),
                  RecognitionStart (length (recognitions w))]\<rparr>)"

text \<open>
  The events a recognition object fires.  \<open>deliver i ev\<close> runs the handler that instance
  \<open>i\<close> has for \<open>ev\<close>; an instance that was never constructed fires nothing.
\<close>

datatype rec_event = Started | Result jsstring fetch_result | Failed | Ended

definition deliver :: "nat \<Rightarrow> rec_event \<Rightarrow> world \<Rightarrow> world" where
  "deliver i ev w =
     (if \<not> i < length (recognitions w) then w
      else (case ev of
              Started \<Rightarrow> w\<lparr>sess := recognition_onstart (sess w)\<rparr>
            | Result transcript fr \<Rightarrow>
                (case recognition_onresult (handlers (recognitions w ! i)) transcript fr (sess w) of
                   (s', fx) \<Rightarrow> w\<lparr>sess := s', trace := trace w @ fx\<rparr>)
            | Failed \<Rightarrow> w\<lparr>sess := recognition_onerror (sess w)\<rparr>
            | Ended \<Rightarrow> w\<lparr>sess := resetRecording (sess w)\<rparr>))"

definition on_page :: "(session \<Rightarrow> session) \<Rightarrow> world \<Rightarrow> world" where
  "on_page h w = w\<lparr>sess := h (sess w)\<rparr>"

text \<open>
  A freshly mounted page in a browser that has speech recognition, and the same page
  listening: the microphone was clicked and the recognition has reported its start.
\<close>

definition mounted :: world where
  "mounted = \<lparr>supported = True, sess = initial, recognitions = [], trace = []\<rparr>"

definition listening :: world where
  "listening = deliver 0 Started (startSpeechRecognition mounted)"




section \<open>Blank input\<close>

lemma dropWhile_twice_empty:
  "dropWhile P (rev (dropWhile P xs)) = [] \<longleftrightarrow> dropWhile P xs = []"
proof
  assume drop: "dropWhile P (rev (dropWhile P xs)) = []"
  show "dropWhile P xs = []"
  proof (rule ccontr)
    assume nonempty: "dropWhile P xs \<noteq> []"
    then have "\<not> P (hd (dropWhile P xs))"
      by (rule hd_dropWhile)
    moreover have "hd (dropWhile P xs) \<in> set (dropWhile P xs)"
      using nonempty by simp
    moreover have "\<forall>x \<in> set (dropWhile P xs). P x"
      using drop unfolding dropWhile_eq_Nil_conv by simp
    ultimately show False
      by blast
  qed
next
  assume "dropWhile P xs = []"
  then show "dropWhile P (rev (dropWhile P xs)) = []"
    by (simp only: rev.simps dropWhile.simps)
qed

lemma js_trim_empty_iff: "js_trim s = [] \<longleftrightarrow> (\<forall>c \<in> set s. js_whitespace c)"
proof -
  have "js_trim s = [] \<longleftrightarrow> dropWhile js_whitespace s = []"
    by (simp only: js_trim_def rev_is_Nil_conv dropWhile_twice_empty)
  also have "\<dots> \<longleftrightarrow> (\<forall>c \<in> set s. js_whitespace c)"
    by (rule dropWhile_eq_Nil_conv)
  finally show ?thesis .
qed

text \<open>
  C1.  For every input that is empty after trimming, \<open>handleUserInput\<close> sets the error
  to the empty-input message, changes nothing else and calls nothing on the platform:
  \<open>fetch\<close> is not invoked, whatever the service would have answered.
\<close>

theorem blank_input_rejected:
  assumes "js_trim input = []"
  shows "handleUserInput rnd fr input s = (s\<lparr>error := ''Please speak a valid input.''\<rparr>, [])"
  using assms by (simp add: handleUserInput_def handleUserInput_begin_def)

theorem blank_input_rejected_witness:
  "js_trim (js ''  '') = [] \<and>
   handleUserInput initial (Responded 200 (JsonBody (JObj [(js ''response'', JStr (js ''hi''))])))
     (js ''  '') initial
   = (initial\<lparr>error := ''Please speak a valid input.''\<rparr>, [])"
proof -
  have blank: "js_trim (js ''  '') = []"
    by (simp add: js_trim_def js_def js_whitespace_def)
  show ?thesis
    using blank blank_input_rejected [OF blank] by simp
qed

section \<open>A successful reply\<close>

lemma resume_reply:
  assumes "res_ok status"
  shows "handleUserInput_resume rnd (Responded status (JsonBody (JObj [(js ''response'', r)]))) s1
         = (s1\<lparr>response := r,
               error := (if to_string_throws r
                         then ''Sorry, there was an issue processing the request.''
                         else error s1),
               isLoading := False\<rparr>,
            [SynthCancel, SynthSpeak r (voice_at (voices rnd) (selectedVoice rnd))])"
  using assms
  by (simp add: handleUserInput_resume_def try_block_def speakResponse_def
      animateMessageSent_def)


lemma nonblank_hello: "js_trim (js ''hello'') \<noteq> []"
  by (simp add: js_trim_def js_def js_whitespace_def)




section \<open>A failed reply\<close>

text \<open>
  C5.  For every input that is not blank, a reply whose status is outside 200 to 299 ends
  with the error message set and the loading flag cleared; the stored response is the one
  from before, whatever it was, and nothing is spoken.
\<close>

theorem non_2xx_keeps_response:
  assumes "js_trim input \<noteq> []" and "\<not> res_ok status"
  shows "handleUserInput rnd (Responded status b) input s
         = (s\<lparr>error := ''Sorry, there was an issue processing the request.'',
               isLoading := False\<rparr>, [request input]) \<and>
         response (fst (handleUserInput rnd (Responded status b) input s)) = response s"
  using assms
  by (simp add: handleUserInput_def handleUserInput_begin_def handleUserInput_resume_def
      try_block_def)

theorem non_2xx_keeps_response_witness:
  "js_trim (js ''hello'') \<noteq> [] \<and> \<not> res_ok 500 \<and>
   error (fst (handleUserInput initial (Responded 500 NotJson) (js ''hello'')
      (initial\<lparr>response := JStr (js ''old'')\<rparr>)))
     = ''Sorry, there was an issue processing the request.'' \<and>
   response (fst (handleUserInput initial (Responded 500 NotJson) (js ''hello'')
      (initial\<lparr>response := JStr (js ''old'')\<rparr>))) = JStr (js ''old'')"
proof -
  have nonblank: "js_trim (js ''hello'') \<noteq> []"
    by (simp add: js_trim_def js_def js_whitespace_def)
  have status: "\<not> res_ok 500"
    by (simp add: res_ok_def)
  show ?thesis
    using nonblank status
      non_2xx_keeps_response [OF nonblank status, of initial NotJson
        "initial\<lparr>response := JStr (js ''old'')\<rparr>"]
    by simp
qed

section \<open>Every outcome ends the submission\<close>

lemma resume_failed:
  "handleUserInput_resume rnd NetworkFailure s1
     = (s1\<lparr>error := ''Sorry, there was an issue processing the request.'',
           isLoading := False\<rparr>, [])"
  "\<not> res_ok code \<Longrightarrow> handleUserInput_resume rnd (Responded code b) s1
     = (s1\<lparr>error := ''Sorry, there was an issue processing the request.'',
           isLoading := False\<rparr>, [])"
  "handleUserInput_resume rnd (Responded status NotJson) s1
     = (s1\<lparr>error := ''Sorry, there was an issue processing the request.'',
           isLoading := False\<rparr>, [])"
  "handleUserInput_resume rnd (Responded status (JsonBody JNull)) s1
     = (s1\<lparr>error := ''Sorry, there was an issue processing the request.'',
           isLoading := False\<rparr>, [])"
  by (simp_all add: handleUserInput_resume_def try_block_def)


lemma resume_no_fetch: "filter is_Fetch (snd (handleUserInput_resume rnd fr s1)) = []"
  by (simp add: handleUserInput_resume_def try_block_def speakResponse_def
      animateMessageSent_def split: fetch_result.split body.split sum.split)

lemma whole_call:
  assumes "js_trim input \<noteq> []"
  shows "handleUserInput rnd fr input s
         = (fst (handleUserInput_resume rnd fr (s\<lparr>isLoading := True, error := []\<rparr>)),
            request input # snd (handleUserInput_resume rnd fr (s\<lparr>isLoading := True, error := []\<rparr>)))"
  using assms
  by (simp add: handleUserInput_def handleUserInput_begin_def split: prod.split)



section \<open>The request\<close>

text \<open>
  C7.  For every input that is not blank and every outcome of the request, a call of
  \<open>handleUserInput\<close> makes exactly one \<open>fetch\<close>: a POST to the address of the service with
  the content type of JSON and the body \<open>{text: input}\<close>.  A 2xx reply with the JSON body
  \<open>{response: t}\<close>, \<open>t\<close> a string, is read: \<open>t\<close> becomes the response and no error is set.
  A status outside 200 to 299 or a body that is not JSON ends with the error message, and
  with that one request only.
\<close>

theorem one_post_no_retry:
  assumes "js_trim input \<noteq> []"
  shows "filter is_Fetch (snd (handleUserInput rnd fr input s))
           = [Fetch ''http://127.0.0.1:5000'' ''POST'' [(''Content-Type'', ''application/json'')]
                (JObj [(js ''text'', JStr input)])] \<and>
         (\<not> res_ok status \<or> b = NotJson \<longrightarrow>
            handleUserInput rnd (Responded status b) input s
            = (s\<lparr>error := ''Sorry, there was an issue processing the request.'',
                  isLoading := False\<rparr>,
               [Fetch ''http://127.0.0.1:5000'' ''POST'' [(''Content-Type'', ''application/json'')]
                  (JObj [(js ''text'', JStr input)])])) \<and>
         (res_ok code \<longrightarrow>
            fst (handleUserInput rnd
                   (Responded code (JsonBody (JObj [(js ''response'', JStr t)]))) input s)
            = s\<lparr>response := JStr t, error := [], isLoading := False\<rparr>)"
proof -
  have one: "filter is_Fetch (snd (handleUserInput rnd fr input s))
           = [Fetch ''http://127.0.0.1:5000'' ''POST'' [(''Content-Type'', ''application/json'')]
                (JObj [(js ''text'', JStr input)])]"
    by (simp add: whole_call [OF assms] resume_no_fetch request_def)
  have failed: "\<not> res_ok status \<or> b = NotJson \<longrightarrow>
            handleUserInput rnd (Responded status b) input s
            = (s\<lparr>error := ''Sorry, there was an issue processing the request.'',
                  isLoading := False\<rparr>,
               [Fetch ''http://127.0.0.1:5000'' ''POST'' [(''Content-Type'', ''application/json'')]
                  (JObj [(js ''text'', JStr input)])])"
    by (auto simp add: whole_call [OF assms] resume_failed request_def)
  have read: "res_ok code \<longrightarrow>
            fst (handleUserInput rnd
                   (Responded code (JsonBody (JObj [(js ''response'', JStr t)]))) input s)
            = s\<lparr>response := JStr t, error := [], isLoading := False\<rparr>"
    by (simp add: whole_call [OF assms] resume_reply)
  show ?thesis
    using one failed read by simp
qed

theorem one_post_no_retry_witness:
  "js_trim (js ''hello'') \<noteq> [] \<and>
   filter is_Fetch (snd (handleUserInput initial NetworkFailure (js ''hello'') initial))
     = [Fetch ''http://127.0.0.1:5000'' ''POST'' [(''Content-Type'', ''application/json'')]
          (JObj [(js ''text'', JStr (js ''hello''))])] \<and>
   handleUserInput initial (Responded 200 NotJson) (js ''hello'') initial
     = (initial\<lparr>error := ''Sorry, there was an issue processing the request.''\<rparr>,
        [Fetch ''http://127.0.0.1:5000'' ''POST'' [(''Content-Type'', ''application/json'')]
           (JObj [(js ''text'', JStr (js ''hello''))])]) \<and>
   res_ok 200 \<and>
   fst (handleUserInput initial
          (Responded 200 (JsonBody (JObj [(js ''response'', JStr (js ''hi there''))])))
          (js ''hello'') initial)
     = initial\<lparr>response := JStr (js ''hi there'')\<rparr>"
proof -
  have ok: "res_ok 200"
    by (simp add: res_ok_def)
  show ?thesis
    using nonblank_hello ok
      one_post_no_retry [OF nonblank_hello, of initial NetworkFailure initial 200 NotJson 200
        "js ''hi there''"]
    by (simp add: initial_def)
qed

section \<open>Starting a capture\<close>

lemma listening_eq:
  "listening = \<lparr>supported = True,
      sess = initial\<lparr>isLoading := True, isRecording := True, isModalOpen := True\<rparr>,
      recognitions = [\<lparr>lang = ''en-US'', interimResults = False, maxAlternatives = 1,
                       handlers = initial\<rparr>],
      trace = [RecognitionNew 0, RecognitionStart 0]\<rparr>"
  by (simp add: listening_def mounted_def startSpeechRecognition_def deliver_def
      recognition_onstart_def)

text \<open>
  C8, as the code has it.  In a browser without speech recognition
  \<open>startSpeechRecognition\<close> shows the alert that it is not supported and returns: no
  recognition object is constructed, none is started, and no state cell changes, the
  error among them.
\<close>

theorem capture_unavailable_alerts:
  assumes "\<not> supported w"
  shows "startSpeechRecognition w
           = w\<lparr>trace := trace w @ [Alert ''Speech Recognition is not supported in this browser.'']\<rparr> \<and>
         sess (startSpeechRecognition w) = sess w \<and>
         recognitions (startSpeechRecognition w) = recognitions w \<and>
         filter is_RecognitionNew (trace (startSpeechRecognition w))
           = filter is_RecognitionNew (trace w) \<and>
         filter is_RecognitionStart (trace (startSpeechRecognition w))
           = filter is_RecognitionStart (trace w)"
  using assms by (simp add: startSpeechRecognition_def)

theorem capture_unavailable_alerts_witness:
  "\<not> supported (mounted\<lparr>supported := False\<rparr>) \<and>
   startSpeechRecognition (mounted\<lparr>supported := False\<rparr>)
     = \<lparr>supported = False, sess = initial, recognitions = [],
        trace = [Alert ''Speech Recognition is not supported in this browser.'']\<rparr>"
proof -
  have unsupported: "\<not> supported (mounted\<lparr>supported := False\<rparr>)"
    by simp
  show ?thesis
    using unsupported capture_unavailable_alerts [OF unsupported]
    by (simp add: mounted_def)
qed

text \<open>
  There is no transition to an error: on the mounted page of such a browser the call
  leaves the state cells at their initial values, the error empty, and only the alert is
  shown.
\<close>

theorem capture_unavailable_no_error_counterexample:
  "\<not> supported (mounted\<lparr>supported := False\<rparr>) \<and>
   sess (startSpeechRecognition (mounted\<lparr>supported := False\<rparr>)) = initial \<and>
   error (sess (startSpeechRecognition (mounted\<lparr>supported := False\<rparr>))) = [] \<and>
   trace (startSpeechRecognition (mounted\<lparr>supported := False\<rparr>))
     = [Alert ''Speech Recognition is not supported in this browser.'']"
  by (simp add: startSpeechRecognition_def mounted_def initial_def)

text \<open>
  C3, as the code has it.  \<open>startSpeechRecognition\<close> has no guard on the state: in a
  browser with speech recognition every call constructs one more recognition object and
  starts it, also while the page is listening, so two calls in a row add two \<open>start()\<close>
  calls.
\<close>

theorem start_always_starts:
  assumes "supported w"
  shows "startSpeechRecognition w
           = w\<lparr>recognitions := recognitions w @
                  [\<lparr>lang = ''en-US'', interimResults = False, maxAlternatives = 1,
                    handlers = sess w\<rparr>],
                trace := trace w @
                  [RecognitionNew (length (recognitions w)),
                   RecognitionStart (length (recognitions w))]\<rparr> \<and>
         filter is_RecognitionStart (trace (startSpeechRecognition (startSpeechRecognition w)))
           = filter is_RecognitionStart (trace w) @
               [RecognitionStart (length (recognitions w)),
                RecognitionStart (Suc (length (recognitions w)))]"
  using assms by (simp add: startSpeechRecognition_def)

theorem start_always_starts_witness:
  "supported listening \<and>
   trace (startSpeechRecognition listening)
     = [RecognitionNew 0, RecognitionStart 0, RecognitionNew 1, RecognitionStart 1]"
proof -
  have avail: "supported listening"
    by (simp add: listening_eq)
  show ?thesis
    using avail start_always_starts [OF avail]
    by (simp add: listening_eq)
qed

text \<open>
  The idempotent reading fails on the listening page: a further call changes the page, and
  after two further calls three recognitions have been started, not one.
\<close>

theorem start_not_idempotent_counterexample:
  "isRecording (sess listening) \<and>
   startSpeechRecognition listening \<noteq> listening \<and>
   filter is_RecognitionStart (trace listening) = [RecognitionStart 0] \<and>
   filter is_RecognitionStart (trace (startSpeechRecognition (startSpeechRecognition listening)))
     = [RecognitionStart 0, RecognitionStart 1, RecognitionStart 2]"
  by (simp add: listening_eq startSpeechRecognition_def)

section \<open>Results of superseded captures\<close>

text \<open>
  C4, as the code has it.  No generation is kept and no callback is discarded: the result
  of any recognition object that was constructed, the latest or not, stores its transcript
  as \<open>userInput\<close>, submits it through \<open>handleUserInput\<close> with the render of its own capture,
  and closes the modal.
\<close>

theorem every_result_processed:
  assumes "i < length (recognitions w)"
  shows "userInput (sess (deliver i (Result transcript fr) w)) = transcript \<and>
         \<not> isModalOpen (sess (deliver i (Result transcript fr) w)) \<and>
         trace (deliver i (Result transcript fr) w)
           = trace w @ snd (handleUserInput (handlers (recognitions w ! i)) fr transcript
                              ((sess w)\<lparr>userInput := transcript\<rparr>))"
proof -
  have keeps: "userInput (fst (handleUserInput rnd fr transcript s)) = userInput s" for rnd s
    by (simp add: handleUserInput_def handleUserInput_begin_def handleUserInput_resume_def
        try_block_def speakResponse_def animateMessageSent_def
        split: fetch_result.split body.split sum.split)
  show ?thesis
    using assms keeps [of "handlers (recognitions w ! i)" "(sess w)\<lparr>userInput := transcript\<rparr>"]
    by (auto simp add: deliver_def recognition_onresult_def split: prod.split)
qed

theorem every_result_processed_witness:
  "0 < length (recognitions (startSpeechRecognition listening)) \<and>
   userInput (sess (deliver 0 (Result (js ''hi'') NetworkFailure) (startSpeechRecognition listening)))
     = js ''hi''"
proof -
  have exists: "0 < length (recognitions (startSpeechRecognition listening))"
    by (simp add: listening_eq startSpeechRecognition_def)
  show ?thesis
    using exists every_result_processed [OF exists]
    by simp
qed

text \<open>
  The discarding of stale results fails: on the listening page, the result of the first
  recognition changes the state cells when it arrives after Cancel has closed the modal,
  and when it arrives after a second recognition was started.
\<close>

theorem stale_result_counterexample:
  "sess (deliver 0 (Result (js ''hi'') NetworkFailure) (on_page modal_onClose listening))
     \<noteq> sess (on_page modal_onClose listening) \<and>
   userInput (sess (deliver 0 (Result (js ''hi'') NetworkFailure) (on_page modal_onClose listening)))
     = js ''hi'' \<and>
   length (recognitions (startSpeechRecognition listening)) = 2 \<and>
   sess (deliver 0 (Result (js ''hi'') NetworkFailure) (startSpeechRecognition listening))
     \<noteq> sess (startSpeechRecognition listening) \<and>
   userInput (sess (deliver 0 (Result (js ''hi'') NetworkFailure) (startSpeechRecognition listening)))
     = js ''hi''"
  by (simp add: listening_eq startSpeechRecognition_def deliver_def on_page_def modal_onClose_def
      recognition_onresult_def handleUserInput_def handleUserInput_begin_def
      handleUserInput_resume_def try_block_def js_trim_def js_def js_whitespace_def initial_def)

section \<open>Selecting a voice\<close>







section \<open>Speaking without a voice\<close>



end
